theory Spec2Isabelle
  imports Main
begin

section \<open>JavaScript values and string built-ins\<close>

text \<open>
  The handler of the \<open>validate-address\<close> tool (\<open>src/server.ts\<close>, lines 93 to 202) reads
  the parsed USPS response as an untyped object. The leaves it reads are strings in the USPS
  response; a leaf may also be missing (\<open>undefined\<close>) or \<open>null\<close>, and the handler
  behaves differently on those, so the three cases are kept apart.

  Strings are lists of code units. The two string built-ins are modelled on the ASCII range,
  which is what the street lines of US addresses are made of: there
  \<open>String.prototype.trim\<close> strips TAB, LF, VT, FF, CR and SPACE from both ends, and
  \<open>String.prototype.toUpperCase\<close> maps \<open>a\<close> to \<open>z\<close> onto \<open>A\<close> to \<open>Z\<close> and leaves
  every other code unit alone. Above 0x7F the built-ins of JavaScript do more (they strip
  the no-break space, raise accented letters, turn the sharp s into two letters), so
  \<open>trim\<close> and \<open>toUpperCase\<close> below are the built-ins on strings that satisfy
  \<open>ascii_only\<close> and on no others. A theorem that concludes from a difference between two
  normalized streets assumes that both streets are ASCII.
\<close>

datatype js_value = JUndefined | JNull | JString string

text \<open>The only exception the response processing can raise: a method call on a value that
  is \<open>undefined\<close> or \<open>null\<close>.\<close>

datatype js_error = TypeError

definition ascii_only :: "string \<Rightarrow> bool" where
  "ascii_only s \<longleftrightarrow> list_all (\<lambda>c. (of_char c :: nat) < 128) s"

definition isWhiteSpace :: "char \<Rightarrow> bool" where
  "isWhiteSpace c \<longleftrightarrow> c \<in> {CHR 0x09, CHR 0x0A, CHR 0x0B, CHR 0x0C, CHR 0x0D, CHR 0x20}"

definition trim :: "string \<Rightarrow> string" where
  "trim s = rev (dropWhile isWhiteSpace (rev (dropWhile isWhiteSpace s)))"

definition toUpperCase_char :: "char \<Rightarrow> char" where
  "toUpperCase_char c =
     (let n = (of_char c :: nat) in if 97 \<le> n \<and> n \<le> 122 then char_of (n - 32) else c)"

definition toUpperCase :: "string \<Rightarrow> string" where
  "toUpperCase s = map toUpperCase_char s"

text \<open>A value inside a template literal, \<^verbatim>\<open>`${v}`\<close>.\<close>

fun template :: "js_value \<Rightarrow> string" where
  "template JUndefined = ''undefined''"
| "template JNull = ''null''"
| "template (JString s) = s"

text \<open>The call chain \<^verbatim>\<open>v.trim().toUpperCase()\<close>: it throws unless \<open>v\<close> is a string.\<close>

fun trim_toUpperCase :: "js_value \<Rightarrow> js_error + string" where
  "trim_toUpperCase (JString s) = Inr (toUpperCase (trim s))"
| "trim_toUpperCase JUndefined = Inl TypeError"
| "trim_toUpperCase JNull = Inl TypeError"


section \<open>The request and the USPS response\<close>

text \<open>The tool's parameters, as validated by the zod schema of lines 96 to 101.\<close>

record params =
  streetAddress :: string
  city :: string
  state :: string
  zipCode :: "string option"

text \<open>The parts of the response body the handler reads. An object that is absent (or
  \<open>null\<close>) is \<open>None\<close>: both are falsy in the tests of lines 152, 153 and 177.\<close>

record address =
  streetAddress :: js_value
  city :: js_value
  state :: js_value
  ZIPCode :: js_value
  ZIPPlus4 :: js_value

record additionalInfo =
  DPVConfirmation :: js_value

record error_entry =
  "text" :: js_value

record validationData =
  address :: "address option"
  additionalInfo :: "additionalInfo option"
  errors :: "error_entry list option"


section \<open>Processing the response\<close>

text \<open>Line 153: \<^verbatim>\<open>const { DPVConfirmation } = validationData.additionalInfo || {};\<close>\<close>

definition DPVConfirmation_of :: "validationData \<Rightarrow> js_value" where
  "DPVConfirmation_of validationData =
     (case additionalInfo validationData of
        None \<Rightarrow> JUndefined
      | Some info \<Rightarrow> DPVConfirmation info)"

text \<open>Line 159, the template literal bound to \<open>suggestedAddress\<close>.\<close>

definition suggestedAddress :: "address \<Rightarrow> string" where
  "suggestedAddress a =
     template (address.streetAddress a) @ '', '' @ template (address.city a) @ '', '' @
     template (address.state a) @ '' '' @ template (ZIPCode a) @ ''-'' @ template (ZIPPlus4 a)"

text \<open>
  Step 3 of the handler, lines 149 to 200, as a function of the tool's parameters and of the
  parsed response body. \<open>Inr feedback\<close> is the normal return of lines 182 to 189 with
  \<open>feedback\<close> as the text of the reply; \<open>Inl e\<close> means that \<open>e\<close> was thrown and the
  \<open>catch\<close> branch of lines 190 to 199 built the reply.
\<close>

definition validateAddress :: "params \<Rightarrow> validationData \<Rightarrow> js_error + string" where
  "validateAddress p validationData =
     (case address validationData of
        Some a \<Rightarrow>
          (let DPV = DPVConfirmation_of validationData;
               originalStreet = toUpperCase (trim (params.streetAddress p))
           in case trim_toUpperCase (address.streetAddress a) of
                Inl e \<Rightarrow> Inl e
              | Inr returnedStreet \<Rightarrow>
                  (let suggested = suggestedAddress a
                   in if originalStreet \<noteq> returnedStreet
                      then Inr (''Address was corrected. Suggested address: '' @ suggested)
                      else if DPV = JString ''Y''
                      then Inr ''Address is valid.''
                      else if DPV = JString ''D'' \<or> DPV = JString ''S''
                      then Inr (''Address could be more accurate. Suggested address: '' @ suggested)
                      else Inr ''Address is invalid.''))
      | None \<Rightarrow>
          (case errors validationData of
             Some (e # es) \<Rightarrow> Inr (''Invalid Address. Reason: '' @ template (text e))
           | _ \<Rightarrow> Inr ''Address is invalid.''))"


section \<open>The vocabulary of the specification\<close>

text \<open>
  The specification speaks of verdicts where the handler builds message texts. The four
  verdicts of its data model, with \<open>Invalid None\<close> for the verdict that has no reason
  beyond the generic one.
\<close>

datatype Verdict =
    Valid
  | CorrectedSuggestion string
  | AccuracySuggestion string
  | Invalid "string option"

text \<open>The message of each verdict, as the specification's section on external interfaces
  tabulates it.\<close>

fun render :: "Verdict \<Rightarrow> string" where
  "render Valid = ''Address is valid.''"
| "render (CorrectedSuggestion addr) = ''Address was corrected. Suggested address: '' @ addr"
| "render (AccuracySuggestion addr) =
     ''Address could be more accurate. Suggested address: '' @ addr"
| "render (Invalid (Some reason)) = ''Invalid Address. Reason: '' @ reason"
| "render (Invalid None) = ''Address is invalid.''"

text \<open>The specification's format of a verified address:
  \<^verbatim>\<open>{street}, {city}, {state} {zip}-{zip4}\<close>.\<close>

definition formattedAddress :: "string \<Rightarrow> string \<Rightarrow> string \<Rightarrow> string \<Rightarrow> string \<Rightarrow> string" where
  "formattedAddress street cty st zp zp4 =
     street @ '', '' @ cty @ '', '' @ st @ '' '' @ zp @ ''-'' @ zp4"

text \<open>The address object of a matched response that carries all five verified fields.\<close>

definition matched_address :: "string \<Rightarrow> string \<Rightarrow> string \<Rightarrow> string \<Rightarrow> string \<Rightarrow> address" where
  "matched_address street cty st zp zp4 =
     \<lparr>address.streetAddress = JString street, city = JString cty, state = JString st,
      ZIPCode = JString zp, ZIPPlus4 = JString zp4\<rparr>"

text \<open>A response is well formed when it has no \<open>address\<close> object, or when its
  \<open>address\<close> object carries all five verified fields as strings.\<close>

fun is_string :: "js_value \<Rightarrow> bool" where
  "is_string (JString s) = True"
| "is_string JUndefined = False"
| "is_string JNull = False"

definition well_formed :: "validationData \<Rightarrow> bool" where
  "well_formed d =
     (case address d of
        None \<Rightarrow> True
      | Some a \<Rightarrow> is_string (address.streetAddress a) \<and> is_string (address.city a)
          \<and> is_string (address.state a) \<and> is_string (ZIPCode a) \<and> is_string (ZIPPlus4 a))"

text \<open>
  Two streets differ only in case when they have the same length and, position by position,
  the same code unit or the two cases of one letter. They differ only in case or in leading
  and trailing white space when each is such a core with blanks around it, a blank being one
  of the code units 9 to 13 and 32. Neither notion refers to \<open>trim\<close>,
  \<open>isWhiteSpace\<close> or \<open>toUpperCase\<close>.
\<close>

definition blank :: "char \<Rightarrow> bool" where
  "blank c \<longleftrightarrow> (of_char c :: nat) \<in> {9, 10, 11, 12, 13, 32}"

definition lower_case_letter :: "char \<Rightarrow> bool" where
  "lower_case_letter c \<longleftrightarrow> 97 \<le> (of_char c :: nat) \<and> (of_char c :: nat) \<le> 122"

definition same_letter :: "char \<Rightarrow> char \<Rightarrow> bool" where
  "same_letter c d \<longleftrightarrow>
     c = d \<or> (lower_case_letter c \<and> (of_char c :: nat) = of_char d + 32)
           \<or> (lower_case_letter d \<and> (of_char d :: nat) = of_char c + 32)"

definition differ_only_in_case_or_outer_whitespace :: "string \<Rightarrow> string \<Rightarrow> bool" where
  "differ_only_in_case_or_outer_whitespace s v \<longleftrightarrow>
     (\<exists>a x b c y e. s = a @ x @ b \<and> v = c @ y @ e
        \<and> list_all blank a \<and> list_all blank b
        \<and> list_all blank c \<and> list_all blank e
        \<and> list_all2 same_letter x y)"


section \<open>Auxiliary facts\<close>

subsection \<open>Messages determine verdicts\<close>

lemma render_inj: "render v = render w \<Longrightarrow> v = w"
  by (cases v rule: render.cases; cases w rule: render.cases; simp)


subsection \<open>Upper case and trimming\<close>

lemma of_char_toUpperCase_char:
  "(of_char (toUpperCase_char c) :: nat) =
     (if 97 \<le> (of_char c :: nat) \<and> (of_char c :: nat) \<le> 122 then of_char c - 32 else of_char c)"
  by (auto simp: toUpperCase_char_def Let_def of_char_of)

lemma toUpperCase_char_eq_iff:
  "toUpperCase_char c = toUpperCase_char d \<longleftrightarrow> same_letter c d"
proof -
  have "toUpperCase_char c = toUpperCase_char d \<longleftrightarrow>
        (of_char (toUpperCase_char c) :: nat) = of_char (toUpperCase_char d)"
    by (simp add: of_char_eq_iff)
  also have "\<dots> \<longleftrightarrow> same_letter c d"
  proof -
    define n m :: nat where "n = of_char c" and "m = of_char d"
    have "c = d \<longleftrightarrow> n = m"
      by (simp add: n_def m_def of_char_eq_iff)
    then show ?thesis
      unfolding of_char_toUpperCase_char same_letter_def lower_case_letter_def
        n_def [symmetric] m_def [symmetric]
      by (auto split: if_splits)
  qed
  finally show ?thesis .
qed

lemma toUpperCase_eq_iff:
  "toUpperCase x = toUpperCase y \<longleftrightarrow> list_all2 same_letter x y"
proof -
  have "toUpperCase x = toUpperCase y \<longleftrightarrow>
        list_all2 (=) (map toUpperCase_char x) (map toUpperCase_char y)"
    by (simp add: toUpperCase_def list_all2_eq)
  also have "\<dots> \<longleftrightarrow> list_all2 (\<lambda>c d. toUpperCase_char c = toUpperCase_char d) x y"
    by (simp add: list_all2_map1 list_all2_map2)
  finally show ?thesis by (simp add: toUpperCase_char_eq_iff)
qed

lemma blank_iff_isWhiteSpace: "blank c \<longleftrightarrow> isWhiteSpace c"
proof -
  have code: "c = d \<longleftrightarrow> (of_char c :: nat) = of_char d" for d
    by (simp add: of_char_eq_iff)
  show ?thesis
    by (simp add: blank_def isWhiteSpace_def code del: of_char_eq_iff)
qed

lemma same_letter_isWhiteSpace:
  "same_letter c d \<Longrightarrow> isWhiteSpace c = isWhiteSpace d"
  unfolding same_letter_def lower_case_letter_def isWhiteSpace_def
  by auto

lemma list_all2_dropWhile:
  assumes "list_all2 R xs ys" and "\<And>x y. R x y \<Longrightarrow> P x = P y"
  shows "list_all2 R (dropWhile P xs) (dropWhile P ys)"
  using assms(1)
proof (induction rule: list_all2_induct)
  case Nil
  then show ?case by simp
next
  case (Cons x xs y ys)
  with assms(2) [of x y] show ?case by simp
qed

lemma list_all2_trim:
  assumes "list_all2 same_letter x y"
  shows "list_all2 same_letter (trim x) (trim y)"
  unfolding trim_def
  by (intro list_all2_rev [THEN iffD2] list_all2_dropWhile assms same_letter_isWhiteSpace)

lemma trim_outer_whitespace:
  assumes "list_all isWhiteSpace a" and "list_all isWhiteSpace b"
  shows "trim (a @ x @ b) = trim x"
proof -
  have a: "dropWhile isWhiteSpace (a @ x @ b) = dropWhile isWhiteSpace (x @ b)"
    using assms(1) by (intro dropWhile_append2) (simp add: list_all_iff)
  have b: "dropWhile isWhiteSpace (rev b @ r) = dropWhile isWhiteSpace r" for r
    using assms(2) by (intro dropWhile_append2) (simp add: list_all_iff)
  show ?thesis
  proof (cases "list_all isWhiteSpace x")
    case True
    then have xb: "dropWhile isWhiteSpace (x @ b) = []" and x: "dropWhile isWhiteSpace x = []"
      using assms(2) by (auto simp: list_all_iff dropWhile_eq_Nil_conv)
    show ?thesis by (simp only: trim_def a xb x)
  next
    case False
    then have "dropWhile isWhiteSpace (x @ b) = dropWhile isWhiteSpace x @ b"
      by (auto simp: list_all_iff dropWhile_append1)
    with a b show ?thesis by (simp add: trim_def)
  qed
qed

lemma trim_decompose:
  "s = takeWhile isWhiteSpace s @ trim s
         @ rev (takeWhile isWhiteSpace (rev (dropWhile isWhiteSpace s)))"
proof -
  have "rev (rev (dropWhile isWhiteSpace s)) =
        rev (takeWhile isWhiteSpace (rev (dropWhile isWhiteSpace s))
             @ dropWhile isWhiteSpace (rev (dropWhile isWhiteSpace s)))"
    by (simp only: takeWhile_dropWhile_id)
  then have "dropWhile isWhiteSpace s =
        trim s @ rev (takeWhile isWhiteSpace (rev (dropWhile isWhiteSpace s)))"
    by (simp only: rev_append rev_rev_ident trim_def)
  then show ?thesis
    by (metis takeWhile_dropWhile_id)
qed

lemma normalized_eq_iff:
  "toUpperCase (trim s) = toUpperCase (trim v) \<longleftrightarrow> differ_only_in_case_or_outer_whitespace s v"
proof
  assume eq: "toUpperCase (trim s) = toUpperCase (trim v)"
  then have "list_all2 same_letter (trim s) (trim v)"
    by (simp add: toUpperCase_eq_iff)
  moreover have "list_all blank (takeWhile isWhiteSpace u)" for u
    by (simp add: list_all_iff blank_iff_isWhiteSpace) (meson set_takeWhileD)
  moreover have "list_all blank (rev (takeWhile isWhiteSpace u))" for u
    by (simp add: list_all_iff blank_iff_isWhiteSpace) (meson set_takeWhileD)
  ultimately show "differ_only_in_case_or_outer_whitespace s v"
    unfolding differ_only_in_case_or_outer_whitespace_def
    using trim_decompose [of s] trim_decompose [of v] by blast
next
  assume "differ_only_in_case_or_outer_whitespace s v"
  then obtain a x b c y e where
    s: "s = a @ x @ b" and v: "v = c @ y @ e"
    and ws: "list_all isWhiteSpace a" "list_all isWhiteSpace b"
            "list_all isWhiteSpace c" "list_all isWhiteSpace e"
    and xy: "list_all2 same_letter x y"
    unfolding differ_only_in_case_or_outer_whitespace_def
    by (auto simp: list_all_iff blank_iff_isWhiteSpace)
  from ws have "trim s = trim x" "trim v = trim y"
    by (simp_all add: s v trim_outer_whitespace)
  with list_all2_trim [OF xy] show "toUpperCase (trim s) = toUpperCase (trim v)"
    by (simp add: toUpperCase_eq_iff)
qed

subsection \<open>The branches of the handler\<close>

lemma suggestedAddress_matched:
  "suggestedAddress (matched_address street cty st zp zp4) = formattedAddress street cty st zp zp4"
  by (simp add: suggestedAddress_def matched_address_def formattedAddress_def)

lemma matched_address_street:
  "address.streetAddress (matched_address street cty st zp zp4) = JString street"
  by (simp add: matched_address_def)

lemma validateAddress_matched:
  assumes "address d = Some a" and "address.streetAddress a = JString street"
  shows "validateAddress p d =
     (if toUpperCase (trim (params.streetAddress p)) \<noteq> toUpperCase (trim street)
      then Inr (render (CorrectedSuggestion (suggestedAddress a)))
      else if DPVConfirmation_of d = JString ''Y'' then Inr (render Valid)
      else if DPVConfirmation_of d = JString ''D'' \<or> DPVConfirmation_of d = JString ''S''
      then Inr (render (AccuracySuggestion (suggestedAddress a)))
      else Inr (render (Invalid None)))"
  using assms by (simp add: validateAddress_def Let_def)

text \<open>Without a verified street that is a string, line 157 throws and the \<open>catch\<close>
  branch answers.\<close>

lemma street_not_string_raises:
  assumes "address d = Some a" and "\<not> is_string (address.streetAddress a)"
  shows "validateAddress p d = Inl TypeError"
  using assms by (cases "address.streetAddress a") (simp_all add: validateAddress_def)

text \<open>A first error entry whose \<open>text\<close> is missing is rendered by the template literal
  of line 178 as the word \<open>undefined\<close>.\<close>

lemma first_error_without_text:
  assumes "address d = None" and "errors d = Some (e # es)" and "text e = JUndefined"
  shows "validateAddress p d = Inr ''Invalid Address. Reason: undefined''"
  using assms by (simp add: validateAddress_def)


section \<open>Street mismatch\<close>

text \<open>
  C1. For every matched response (all five verified fields present) and ASCII streets: when
  the verified street, trimmed and in upper case, differs from the submitted street, trimmed
  and in upper case, the reply is the message of \<open>CorrectedSuggestion\<close> with the formatted
  verified address. Nothing is assumed about \<open>additionalInfo\<close>: the confirmation code,
  \<open>Y\<close> included, plays no part.
\<close>

theorem street_mismatch_corrected:
  assumes "address d = Some (matched_address street cty st zp zp4)"
    and "ascii_only (params.streetAddress p)" and "ascii_only street"
    and "toUpperCase (trim (params.streetAddress p)) \<noteq> toUpperCase (trim street)"
  shows "validateAddress p d =
           Inr (render (CorrectedSuggestion (formattedAddress street cty st zp zp4)))"
  using assms(4) validateAddress_matched [OF assms(1) matched_address_street, of p]
  by (simp add: suggestedAddress_matched)

theorem street_mismatch_corrected_witness:
  "validateAddress
     \<lparr>params.streetAddress = ''12 Oak Avenue'', city = ''Springfield'', state = ''IL'',
      zipCode = Some ''62704''\<rparr>
     \<lparr>address = Some (matched_address ''12 OAK AVE'' ''SPRINGFIELD'' ''IL'' ''62704'' ''1234''),
      additionalInfo = Some \<lparr>DPVConfirmation = JString ''Y''\<rparr>, errors = None\<rparr>
   = Inr ''Address was corrected. Suggested address: 12 OAK AVE, SPRINGFIELD, IL 62704-1234''"
proof -
  let ?p = "\<lparr>params.streetAddress = ''12 Oak Avenue'', city = ''Springfield'', state = ''IL'',
      zipCode = Some ''62704''\<rparr>"
  let ?d = "\<lparr>address = Some (matched_address ''12 OAK AVE'' ''SPRINGFIELD'' ''IL'' ''62704'' ''1234''),
      additionalInfo = Some \<lparr>DPVConfirmation = JString ''Y''\<rparr>, errors = None\<rparr>"
  have "ascii_only ''12 Oak Avenue''"
    by code_simp
  then have submitted: "ascii_only (params.streetAddress ?p)"
    by simp
  have verified: "ascii_only ''12 OAK AVE''"
    by code_simp
  have "toUpperCase (trim ''12 Oak Avenue'') \<noteq> toUpperCase (trim ''12 OAK AVE'')"
    by code_simp
  then have differ: "toUpperCase (trim (params.streetAddress ?p)) \<noteq> toUpperCase (trim ''12 OAK AVE'')"
    by simp
  have matched: "address ?d = Some (matched_address ''12 OAK AVE'' ''SPRINGFIELD'' ''IL'' ''62704'' ''1234'')"
    by simp
  from street_mismatch_corrected [OF matched submitted verified differ] show ?thesis
    by (simp add: formattedAddress_def)
qed


section \<open>Responses without a match\<close>

text \<open>
  A response without an \<open>address\<close> object is an unmatched outcome. The handler then
  always answers with an Invalid message: with the first error's text unchanged when the
  response lists errors and that text is a string, with the generic message when the
  response lists no errors (no \<open>errors\<close> array, or an empty one).
\<close>

lemma unmatched_replies:
  assumes "address d = None"
  shows "(\<exists>reason. validateAddress p d = Inr (render (Invalid reason)))
       \<and> (\<forall>e es r. errors d = Some (e # es) \<and> text e = JString r
             \<longrightarrow> validateAddress p d = Inr (render (Invalid (Some r))))
       \<and> (errors d = None \<or> errors d = Some []
             \<longrightarrow> validateAddress p d = Inr (render (Invalid None)))"
proof (intro conjI)
  show "\<exists>reason. validateAddress p d = Inr (render (Invalid reason))"
  proof (cases "errors d")
    case None
    with assms have "validateAddress p d = Inr (render (Invalid None))"
      by (simp add: validateAddress_def)
    then show ?thesis ..
  next
    case (Some es)
    show ?thesis
    proof (cases es)
      case Nil
      with Some assms have "validateAddress p d = Inr (render (Invalid None))"
        by (simp add: validateAddress_def)
      then show ?thesis ..
    next
      case (Cons e es')
      with Some assms
      have "validateAddress p d = Inr (render (Invalid (Some (template (text e)))))"
        by (simp add: validateAddress_def)
      then show ?thesis ..
    qed
  qed
next
  show "\<forall>e es r. errors d = Some (e # es) \<and> text e = JString r
          \<longrightarrow> validateAddress p d = Inr (render (Invalid (Some r)))"
    using assms by (simp add: validateAddress_def)
next
  show "errors d = None \<or> errors d = Some []
          \<longrightarrow> validateAddress p d = Inr (render (Invalid None))"
    using assms by (auto simp: validateAddress_def)
qed

text \<open>
  C2. An unmatched outcome is to give the service's reason verbatim when there is one and
  the generic message otherwise. Line 177 tests only that the \<open>errors\<close> array is not
  empty, not that its first entry has a \<open>text\<close>. For a response whose only error entry
  has no \<open>text\<close>, the reply is an Invalid message whose reason is the word
  \<open>undefined\<close>: neither a reason the service gave nor the generic message.
\<close>

theorem unmatched_reason_undefined:
  "validateAddress
     \<lparr>params.streetAddress = ''1 Nowhere Rd'', city = ''Springfield'', state = ''IL'',
      zipCode = None\<rparr>
     \<lparr>address = None, additionalInfo = None, errors = Some [\<lparr>text = JUndefined\<rparr>]\<rparr>
   = Inr ''Invalid Address. Reason: undefined''
   \<and> validateAddress
     \<lparr>params.streetAddress = ''1 Nowhere Rd'', city = ''Springfield'', state = ''IL'',
      zipCode = None\<rparr>
     \<lparr>address = None, additionalInfo = None, errors = Some [\<lparr>text = JUndefined\<rparr>]\<rparr>
   \<noteq> Inr (render (Invalid None))"
  by (simp add: validateAddress_def)


section \<open>Matching streets\<close>

text \<open>
  C3. For every matched response whose normalized verified street equals the normalized
  submitted street and whose \<open>DPVConfirmation\<close> is \<open>Y\<close>, the reply is the message of
  \<open>Valid\<close>. In particular this is so when the two streets differ only in case or in
  leading and trailing white space.
\<close>

theorem confirmed_valid:
  assumes "address d = Some a" and "address.streetAddress a = JString street"
    and "DPVConfirmation_of d = JString ''Y''"
    and "toUpperCase (trim (params.streetAddress p)) = toUpperCase (trim street)
         \<or> differ_only_in_case_or_outer_whitespace (params.streetAddress p) street"
  shows "validateAddress p d = Inr (render Valid)"
  using assms(3,4) validateAddress_matched [OF assms(1,2), of p]
  by (simp add: normalized_eq_iff)

theorem confirmed_valid_witness:
  "validateAddress
     \<lparr>params.streetAddress = ''123 Main St'', city = ''Springfield'', state = ''IL'',
      zipCode = None\<rparr>
     \<lparr>address = Some (matched_address ''123 MAIN ST'' ''SPRINGFIELD'' ''IL'' ''62704'' ''1234''),
      additionalInfo = Some \<lparr>DPVConfirmation = JString ''Y''\<rparr>, errors = None\<rparr>
   = Inr ''Address is valid.''
   \<and> differ_only_in_case_or_outer_whitespace ''  123 main st '' ''123 MAIN ST''
   \<and> validateAddress
     \<lparr>params.streetAddress = ''  123 main st '', city = ''Springfield'', state = ''IL'',
      zipCode = None\<rparr>
     \<lparr>address = Some (matched_address ''123 MAIN ST'' ''SPRINGFIELD'' ''IL'' ''62704'' ''1234''),
      additionalInfo = Some \<lparr>DPVConfirmation = JString ''Y''\<rparr>, errors = None\<rparr>
   = Inr ''Address is valid.''"
proof -
  let ?a = "matched_address ''123 MAIN ST'' ''SPRINGFIELD'' ''IL'' ''62704'' ''1234''"
  let ?d = "\<lparr>address = Some ?a,
      additionalInfo = Some \<lparr>DPVConfirmation = JString ''Y''\<rparr>, errors = None\<rparr>"
  let ?p = "\<lparr>params.streetAddress = ''123 Main St'', city = ''Springfield'', state = ''IL'',
      zipCode = None\<rparr>"
  let ?q = "\<lparr>params.streetAddress = ''  123 main st '', city = ''Springfield'', state = ''IL'',
      zipCode = None\<rparr>"
  have matched: "address ?d = Some ?a"
    by simp
  have code: "DPVConfirmation_of ?d = JString ''Y''"
    by (simp add: DPVConfirmation_of_def)
  have "toUpperCase (trim ''123 Main St'') = toUpperCase (trim ''123 MAIN ST'')"
    by code_simp
  then have same: "toUpperCase (trim (params.streetAddress ?p)) = toUpperCase (trim ''123 MAIN ST'')
      \<or> differ_only_in_case_or_outer_whitespace (params.streetAddress ?p) ''123 MAIN ST''"
    by simp
  have letters: "list_all2 same_letter ''123 main st'' ''123 MAIN ST''"
    by (simp add: same_letter_def lower_case_letter_def)
  have outer: "differ_only_in_case_or_outer_whitespace ''  123 main st '' ''123 MAIN ST''"
    unfolding differ_only_in_case_or_outer_whitespace_def
    apply (rule exI [of _ "''  ''"])
    apply (rule exI [of _ "''123 main st''"])
    apply (rule exI [of _ "'' ''"])
    apply (rule exI [of _ "[]"])
    apply (rule exI [of _ "''123 MAIN ST''"])
    apply (rule exI [of _ "[]"])
    using letters by (simp add: blank_def)
  then have only: "toUpperCase (trim (params.streetAddress ?q)) = toUpperCase (trim ''123 MAIN ST'')
      \<or> differ_only_in_case_or_outer_whitespace (params.streetAddress ?q) ''123 MAIN ST''"
    by simp
  from confirmed_valid [OF matched matched_address_street code same]
    confirmed_valid [OF matched matched_address_street code only] outer
  show ?thesis
    by simp
qed

text \<open>
  C4. For every matched response whose normalized streets are equal and whose
  \<open>DPVConfirmation\<close> is \<open>D\<close> or \<open>S\<close>, the reply is the message of
  \<open>AccuracySuggestion\<close> with the address formatted as
  \<^verbatim>\<open>{street}, {city}, {state} {zip}-{zip4}\<close> from the verified fields. For the verified
  address 123 MAIN ST, Springfield, IL, 62704, 1234 the suggested address is
  \<^verbatim>\<open>123 MAIN ST, Springfield, IL 62704-1234\<close>.
\<close>

theorem secondary_accuracy:
  assumes "address d = Some (matched_address street cty st zp zp4)"
    and "toUpperCase (trim (params.streetAddress p)) = toUpperCase (trim street)"
    and "DPVConfirmation_of d = JString ''D'' \<or> DPVConfirmation_of d = JString ''S''"
  shows "validateAddress p d =
           Inr (render (AccuracySuggestion (formattedAddress street cty st zp zp4)))"
  using assms(2,3) validateAddress_matched [OF assms(1) matched_address_street, of p]
  by (auto simp: suggestedAddress_matched)

theorem secondary_accuracy_witness:
  "validateAddress
     \<lparr>params.streetAddress = ''123 Main St'', city = ''Springfield'', state = ''IL'',
      zipCode = Some ''62704''\<rparr>
     \<lparr>address = Some (matched_address ''123 MAIN ST'' ''Springfield'' ''IL'' ''62704'' ''1234''),
      additionalInfo = Some \<lparr>DPVConfirmation = JString ''D''\<rparr>, errors = None\<rparr>
   = Inr ''Address could be more accurate. Suggested address: 123 MAIN ST, Springfield, IL 62704-1234''
   \<and> validateAddress
     \<lparr>params.streetAddress = ''123 Main St'', city = ''Springfield'', state = ''IL'',
      zipCode = Some ''62704''\<rparr>
     \<lparr>address = Some (matched_address ''123 MAIN ST'' ''Springfield'' ''IL'' ''62704'' ''1234''),
      additionalInfo = Some \<lparr>DPVConfirmation = JString ''S''\<rparr>, errors = None\<rparr>
   = Inr ''Address could be more accurate. Suggested address: 123 MAIN ST, Springfield, IL 62704-1234''"
proof -
  let ?a = "matched_address ''123 MAIN ST'' ''Springfield'' ''IL'' ''62704'' ''1234''"
  let ?p = "\<lparr>params.streetAddress = ''123 Main St'', city = ''Springfield'', state = ''IL'',
      zipCode = Some ''62704''\<rparr>"
  let ?d = "\<lambda>c. \<lparr>address = Some ?a,
      additionalInfo = Some \<lparr>DPVConfirmation = JString c\<rparr>, errors = None\<rparr>"
  have matched: "address (?d c) = Some ?a" for c
    by simp
  have "toUpperCase (trim ''123 Main St'') = toUpperCase (trim ''123 MAIN ST'')"
    by code_simp
  then have same: "toUpperCase (trim (params.streetAddress ?p)) = toUpperCase (trim ''123 MAIN ST'')"
    by simp
  have missing: "DPVConfirmation_of (?d ''D'') = JString ''D'' \<or> DPVConfirmation_of (?d ''D'') = JString ''S''"
    by (simp add: DPVConfirmation_of_def)
  have invalid: "DPVConfirmation_of (?d ''S'') = JString ''D'' \<or> DPVConfirmation_of (?d ''S'') = JString ''S''"
    by (simp add: DPVConfirmation_of_def)
  from secondary_accuracy [OF matched same missing] secondary_accuracy [OF matched same invalid]
  show ?thesis
    by (simp add: formattedAddress_def)
qed

text \<open>
  C5. For every matched response whose normalized streets are equal and whose
  \<open>DPVConfirmation\<close> is anything but \<open>Y\<close>, \<open>D\<close> or \<open>S\<close> (the code \<open>N\<close>, an
  unknown code, no code), the reply is the generic Invalid message, and it is not the
  message of \<open>Valid\<close>.
\<close>

theorem unconfirmed_invalid:
  assumes "address d = Some a" and "address.streetAddress a = JString street"
    and "toUpperCase (trim (params.streetAddress p)) = toUpperCase (trim street)"
    and "DPVConfirmation_of d \<notin> {JString ''Y'', JString ''D'', JString ''S''}"
  shows "validateAddress p d = Inr (render (Invalid None))
       \<and> validateAddress p d \<noteq> Inr (render Valid)"
  using assms(3,4) validateAddress_matched [OF assms(1,2), of p]
  by simp

theorem unconfirmed_invalid_witness:
  "validateAddress
     \<lparr>params.streetAddress = ''500 Elm St'', city = ''Dayton'', state = ''OH'',
      zipCode = None\<rparr>
     \<lparr>address = Some (matched_address ''500 ELM ST'' ''DAYTON'' ''OH'' ''45402'' ''0001''),
      additionalInfo = Some \<lparr>DPVConfirmation = JString ''N''\<rparr>, errors = None\<rparr>
   = Inr ''Address is invalid.''"
proof -
  let ?a = "matched_address ''500 ELM ST'' ''DAYTON'' ''OH'' ''45402'' ''0001''"
  let ?p = "\<lparr>params.streetAddress = ''500 Elm St'', city = ''Dayton'', state = ''OH'',
      zipCode = None\<rparr>"
  let ?d = "\<lparr>address = Some ?a,
      additionalInfo = Some \<lparr>DPVConfirmation = JString ''N''\<rparr>, errors = None\<rparr>"
  have matched: "address ?d = Some ?a"
    by simp
  have "toUpperCase (trim ''500 Elm St'') = toUpperCase (trim ''500 ELM ST'')"
    by code_simp
  then have same: "toUpperCase (trim (params.streetAddress ?p)) = toUpperCase (trim ''500 ELM ST'')"
    by simp
  have code: "DPVConfirmation_of ?d \<notin> {JString ''Y'', JString ''D'', JString ''S''}"
    by (simp add: DPVConfirmation_of_def)
  from unconfirmed_invalid [OF matched matched_address_street same code] show ?thesis
    by simp
qed


section \<open>The street comparison\<close>

text \<open>
  C6. On ASCII streets the comparison of line 163 judges two streets equal exactly when
  they differ only in case or in leading and trailing white space. Any difference in length
  between the trimmed streets, or at a position inside them where the code units are not the
  two cases of one letter (white space, punctuation, another letter), makes it judge them
  unequal. Under \<open>DPVConfirmation = Y\<close> the reply is therefore the message of
  \<open>Valid\<close> in the first case and of \<open>CorrectedSuggestion\<close> with the formatted verified
  address in every other case, such as 123 Main Street against 123 Main St.
\<close>

theorem street_comparison_exact:
  assumes "ascii_only s" and "ascii_only v"
  shows "(toUpperCase (trim s) = toUpperCase (trim v)
      \<longleftrightarrow> differ_only_in_case_or_outer_whitespace s v)
   \<and> (length (trim s) \<noteq> length (trim v)
        \<or> (\<exists>i < length (trim s). \<not> same_letter (trim s ! i) (trim v ! i))
      \<longrightarrow> toUpperCase (trim s) \<noteq> toUpperCase (trim v))
   \<and> validateAddress \<lparr>params.streetAddress = s, city = c, state = t, zipCode = z\<rparr>
        \<lparr>address = Some (matched_address v cty st zp zp4),
         additionalInfo = Some \<lparr>DPVConfirmation = JString ''Y''\<rparr>, errors = es\<rparr>
      = Inr (render (if differ_only_in_case_or_outer_whitespace s v then Valid
                     else CorrectedSuggestion (formattedAddress v cty st zp zp4)))"
proof (intro conjI)
  show "toUpperCase (trim s) = toUpperCase (trim v)
          \<longleftrightarrow> differ_only_in_case_or_outer_whitespace s v"
    by (rule normalized_eq_iff)
  show "length (trim s) \<noteq> length (trim v)
          \<or> (\<exists>i < length (trim s). \<not> same_letter (trim s ! i) (trim v ! i))
        \<longrightarrow> toUpperCase (trim s) \<noteq> toUpperCase (trim v)"
    by (auto simp: toUpperCase_eq_iff list_all2_conv_all_nth)
  show "validateAddress \<lparr>params.streetAddress = s, city = c, state = t, zipCode = z\<rparr>
        \<lparr>address = Some (matched_address v cty st zp zp4),
         additionalInfo = Some \<lparr>DPVConfirmation = JString ''Y''\<rparr>, errors = es\<rparr>
      = Inr (render (if differ_only_in_case_or_outer_whitespace s v then Valid
                     else CorrectedSuggestion (formattedAddress v cty st zp zp4)))"
    using validateAddress_matched [OF _ matched_address_street, of
        "\<lparr>address = Some (matched_address v cty st zp zp4),
          additionalInfo = Some \<lparr>DPVConfirmation = JString ''Y''\<rparr>, errors = es\<rparr>"
        v cty st zp zp4
        "\<lparr>params.streetAddress = s, city = c, state = t, zipCode = z\<rparr>"]
    by (simp add: suggestedAddress_matched normalized_eq_iff DPVConfirmation_of_def)
qed

theorem street_comparison_exact_witness:
  "\<not> differ_only_in_case_or_outer_whitespace ''123 Main Street'' ''123 Main St''
   \<and> \<not> differ_only_in_case_or_outer_whitespace ''123  Main St'' ''123 Main St''
   \<and> \<not> differ_only_in_case_or_outer_whitespace ''123 Main St.'' ''123 Main St''
   \<and> \<not> differ_only_in_case_or_outer_whitespace (CHR 0x1F # ''123 Main St'') ''123 Main St''
   \<and> differ_only_in_case_or_outer_whitespace
       ([CHR 0x09, CHR 0x0A, CHR 0x0B, CHR 0x0C, CHR 0x0D, CHR 0x20] @ ''123 main st'')
       (''123 Main St'' @ [CHR 0x20, CHR 0x0D, CHR 0x0C, CHR 0x0B, CHR 0x0A, CHR 0x09])
   \<and> validateAddress
       \<lparr>params.streetAddress = ''123 Main Street'', city = ''Springfield'', state = ''IL'',
        zipCode = None\<rparr>
       \<lparr>address = Some (matched_address ''123 Main St'' ''Springfield'' ''IL'' ''62704'' ''1234''),
        additionalInfo = Some \<lparr>DPVConfirmation = JString ''Y''\<rparr>, errors = None\<rparr>
     = Inr ''Address was corrected. Suggested address: 123 Main St, Springfield, IL 62704-1234''
   \<and> validateAddress
       \<lparr>params.streetAddress =
          [CHR 0x09, CHR 0x0A, CHR 0x0B, CHR 0x0C, CHR 0x0D, CHR 0x20] @ ''123 main st'',
        city = ''Springfield'', state = ''IL'', zipCode = None\<rparr>
       \<lparr>address = Some (matched_address
          (''123 Main St'' @ [CHR 0x20, CHR 0x0D, CHR 0x0C, CHR 0x0B, CHR 0x0A, CHR 0x09])
          ''Springfield'' ''IL'' ''62704'' ''1234''),
        additionalInfo = Some \<lparr>DPVConfirmation = JString ''Y''\<rparr>, errors = None\<rparr>
     = Inr ''Address is valid.''"
proof -
  let ?lead = "[CHR 0x09, CHR 0x0A, CHR 0x0B, CHR 0x0C, CHR 0x0D, CHR 0x20] @ ''123 main st''"
  let ?trail = "''123 Main St'' @ [CHR 0x20, CHR 0x0D, CHR 0x0C, CHR 0x0B, CHR 0x0A, CHR 0x09]"
  have verified: "ascii_only ''123 Main St''"
    by code_simp
  have ascii: "ascii_only ''123 Main Street''" "ascii_only ''123  Main St''"
    "ascii_only ''123 Main St.''" "ascii_only (CHR 0x1F # ''123 Main St'')"
    "ascii_only ?lead" "ascii_only ?trail"
    by code_simp+
  have street: "toUpperCase (trim ''123 Main Street'') \<noteq> toUpperCase (trim ''123 Main St'')"
    by code_simp
  have inner: "toUpperCase (trim ''123  Main St'') \<noteq> toUpperCase (trim ''123 Main St'')"
    by code_simp
  have dot: "toUpperCase (trim ''123 Main St.'') \<noteq> toUpperCase (trim ''123 Main St'')"
    by code_simp
  have unit: "toUpperCase (trim (CHR 0x1F # ''123 Main St'')) \<noteq> toUpperCase (trim ''123 Main St'')"
    by code_simp
  have outer: "toUpperCase (trim ?lead) = toUpperCase (trim ?trail)"
    by code_simp
  from street street_comparison_exact [OF ascii(1) verified,
      of "''Springfield''" "''IL''" None "''Springfield''" "''IL''" "''62704''" "''1234''" None]
  have a: "\<not> differ_only_in_case_or_outer_whitespace ''123 Main Street'' ''123 Main St''"
    and corrected: "validateAddress
       \<lparr>params.streetAddress = ''123 Main Street'', city = ''Springfield'', state = ''IL'',
        zipCode = None\<rparr>
       \<lparr>address = Some (matched_address ''123 Main St'' ''Springfield'' ''IL'' ''62704'' ''1234''),
        additionalInfo = Some \<lparr>DPVConfirmation = JString ''Y''\<rparr>, errors = None\<rparr>
     = Inr ''Address was corrected. Suggested address: 123 Main St, Springfield, IL 62704-1234''"
    by (simp_all add: formattedAddress_def)
  from inner street_comparison_exact [OF ascii(2) verified]
  have b: "\<not> differ_only_in_case_or_outer_whitespace ''123  Main St'' ''123 Main St''"
    by simp
  from dot street_comparison_exact [OF ascii(3) verified]
  have c: "\<not> differ_only_in_case_or_outer_whitespace ''123 Main St.'' ''123 Main St''"
    by simp
  from unit street_comparison_exact [OF ascii(4) verified]
  have d: "\<not> differ_only_in_case_or_outer_whitespace (CHR 0x1F # ''123 Main St'') ''123 Main St''"
    by simp
  from outer street_comparison_exact [OF ascii(5) ascii(6),
      of "''Springfield''" "''IL''" None "''Springfield''" "''IL''" "''62704''" "''1234''" None]
  have e: "differ_only_in_case_or_outer_whitespace ?lead ?trail"
    and valid: "validateAddress
       \<lparr>params.streetAddress = ?lead, city = ''Springfield'', state = ''IL'', zipCode = None\<rparr>
       \<lparr>address = Some (matched_address ?trail ''Springfield'' ''IL'' ''62704'' ''1234''),
        additionalInfo = Some \<lparr>DPVConfirmation = JString ''Y''\<rparr>, errors = None\<rparr>
     = Inr ''Address is valid.''"
    by simp_all
  from a b c d e corrected valid show ?thesis
    by (intro conjI)
qed


section \<open>Totality\<close>

text \<open>
  C7. For every well-formed response and every submitted address the handler returns
  normally, and its reply is the message of exactly one verdict: the \<open>catch\<close> branch is
  not reached.
\<close>

theorem validateAddress_total:
  assumes "well_formed d"
  shows "\<exists>!v. validateAddress p d = Inr (render v)"
proof -
  have "\<exists>v. validateAddress p d = Inr (render v)"
  proof (cases "address d")
    case None
    show ?thesis
    proof (cases "errors d")
      case N: None
      with None have "validateAddress p d = Inr (render (Invalid None))"
        by (simp add: validateAddress_def)
      then show ?thesis ..
    next
      case (Some es)
      show ?thesis
      proof (cases es)
        case Nil
        with None Some have "validateAddress p d = Inr (render (Invalid None))"
          by (simp add: validateAddress_def)
        then show ?thesis ..
      next
        case (Cons e es')
        with None Some
        have "validateAddress p d = Inr (render (Invalid (Some (template (text e)))))"
          by (simp add: validateAddress_def)
        then show ?thesis ..
      qed
    qed
  next
    case (Some a)
    with assms obtain street where "address.streetAddress a = JString street"
      by (cases "address.streetAddress a") (simp_all add: well_formed_def)
    from validateAddress_matched [OF Some this, of p] show ?thesis
      by (metis (full_types))
  qed
  then show ?thesis
    by (metis render_inj sum.inject(2))
qed

theorem validateAddress_total_witness:
  "well_formed
     \<lparr>address = Some (matched_address ''9 Bay Ct'' ''Tampa'' ''FL'' ''33602'' ''1111''),
      additionalInfo = None, errors = None\<rparr>
   \<and> (\<exists>!v. validateAddress
          \<lparr>params.streetAddress = ''9 bay ct'', city = ''Tampa'', state = ''FL'', zipCode = None\<rparr>
          \<lparr>address = Some (matched_address ''9 Bay Ct'' ''Tampa'' ''FL'' ''33602'' ''1111''),
           additionalInfo = None, errors = None\<rparr> = Inr (render v))
   \<and> well_formed \<lparr>address = None, additionalInfo = None, errors = Some []\<rparr>
   \<and> (\<exists>!v. validateAddress
          \<lparr>params.streetAddress = ''9 bay ct'', city = ''Tampa'', state = ''FL'', zipCode = None\<rparr>
          \<lparr>address = None, additionalInfo = None, errors = Some []\<rparr> = Inr (render v))"
proof -
  let ?d = "\<lparr>address = Some (matched_address ''9 Bay Ct'' ''Tampa'' ''FL'' ''33602'' ''1111''),
      additionalInfo = None, errors = None\<rparr>"
  let ?u = "\<lparr>address = None, additionalInfo = None, errors = Some []\<rparr>"
  have matched: "well_formed ?d"
    by (simp add: well_formed_def matched_address_def)
  have unmatched: "well_formed ?u"
    by (simp add: well_formed_def)
  from validateAddress_total [OF matched] validateAddress_total [OF unmatched] matched unmatched
  show ?thesis
    by blast
qed


section \<open>Absent confirmation code\<close>

text \<open>
  C9. For a matched response with no \<open>additionalInfo\<close> object at all and equal normalized
  streets, the handler does not throw: the reply is the generic Invalid message, the same
  reply as for any code other than \<open>Y\<close>, \<open>D\<close> and \<open>S\<close>.
\<close>

theorem absent_code_invalid:
  assumes "address d = Some a" and "address.streetAddress a = JString street"
    and "toUpperCase (trim (params.streetAddress p)) = toUpperCase (trim street)"
    and "additionalInfo d = None"
  shows "validateAddress p d = Inr (render (Invalid None))
       \<and> (\<forall>c. c \<notin> {JString ''Y'', JString ''D'', JString ''S''} \<longrightarrow>
             validateAddress p (d\<lparr>additionalInfo := Some \<lparr>DPVConfirmation = c\<rparr>\<rparr>)
               = validateAddress p d)"
proof -
  have none: "DPVConfirmation_of d = JUndefined"
    using assms(4) by (simp add: DPVConfirmation_of_def)
  have "DPVConfirmation_of (d\<lparr>additionalInfo := Some \<lparr>DPVConfirmation = c\<rparr>\<rparr>) = c" for c
    by (simp add: DPVConfirmation_of_def)
  moreover have "address (d\<lparr>additionalInfo := Some \<lparr>DPVConfirmation = c\<rparr>\<rparr>) = Some a" for c
    using assms(1) by simp
  ultimately show ?thesis
    using assms(3) none validateAddress_matched [OF assms(1,2), of p]
      validateAddress_matched [OF _ assms(2), of _ p]
    by simp
qed

theorem absent_code_invalid_witness:
  "validateAddress
     \<lparr>params.streetAddress = ''77 Pine Rd'', city = ''Salem'', state = ''OR'', zipCode = None\<rparr>
     \<lparr>address = Some (matched_address ''77 PINE RD'' ''SALEM'' ''OR'' ''97301'' ''4321''),
      additionalInfo = None, errors = None\<rparr>
   = Inr ''Address is invalid.''
   \<and> validateAddress
     \<lparr>params.streetAddress = ''77 Pine Rd'', city = ''Salem'', state = ''OR'', zipCode = None\<rparr>
     \<lparr>address = Some (matched_address ''77 PINE RD'' ''SALEM'' ''OR'' ''97301'' ''4321''),
      additionalInfo = Some \<lparr>DPVConfirmation = JString ''N''\<rparr>, errors = None\<rparr>
   = Inr ''Address is invalid.''"
proof -
  let ?a = "matched_address ''77 PINE RD'' ''SALEM'' ''OR'' ''97301'' ''4321''"
  let ?p = "\<lparr>params.streetAddress = ''77 Pine Rd'', city = ''Salem'', state = ''OR'',
      zipCode = None\<rparr>"
  let ?d = "\<lparr>address = Some ?a, additionalInfo = None, errors = None\<rparr>"
  have matched: "address ?d = Some ?a"
    by simp
  have "toUpperCase (trim ''77 Pine Rd'') = toUpperCase (trim ''77 PINE RD'')"
    by code_simp
  then have same: "toUpperCase (trim (params.streetAddress ?p)) = toUpperCase (trim ''77 PINE RD'')"
    by simp
  have absent: "additionalInfo ?d = None"
    by simp
  from absent_code_invalid [OF matched matched_address_street same absent] show ?thesis
    by simp
qed


section \<open>Suggested addresses are built from the fields as received\<close>

text \<open>
  C10. Whenever the reply is the message of \<open>CorrectedSuggestion\<close> or of
  \<open>AccuracySuggestion\<close>, the address in it is the verified street exactly as the response
  carries it (its own case, its own white space), followed by the other verified fields as
  received, in the format of line 159. The trimmed upper-case strings serve the comparison
  only.
\<close>

theorem suggestion_verbatim:
  assumes "validateAddress p d = Inr (render (CorrectedSuggestion s))
         \<or> validateAddress p d = Inr (render (AccuracySuggestion s))"
  shows "\<exists>a street. address d = Some a \<and> address.streetAddress a = JString street
           \<and> s = street @ '', '' @ template (address.city a) @ '', ''
                  @ template (address.state a) @ '' '' @ template (ZIPCode a) @ ''-''
                  @ template (ZIPPlus4 a)"
proof (cases "address d")
  case None
  with assms show ?thesis
    by (auto simp: validateAddress_def split: option.splits list.splits)
next
  case (Some a)
  show ?thesis
  proof (cases "address.streetAddress a")
    case (JString street)
    from assms validateAddress_matched [OF Some JString, of p]
    have "s = suggestedAddress a"
      by (auto split: if_splits)
    with Some JString show ?thesis
      by (simp add: suggestedAddress_def)
  qed (use assms Some in \<open>simp_all add: validateAddress_def\<close>)
qed

theorem suggestion_verbatim_witness:
  "validateAddress
     \<lparr>params.streetAddress = ''123 MAIN ST'', city = ''Springfield'', state = ''IL'',
      zipCode = None\<rparr>
     \<lparr>address = Some (matched_address '' 123 Main St '' ''Springfield'' ''IL'' ''62704'' ''1234''),
      additionalInfo = Some \<lparr>DPVConfirmation = JString ''D''\<rparr>, errors = None\<rparr>
   = Inr (render (AccuracySuggestion '' 123 Main St , Springfield, IL 62704-1234''))
   \<and> (\<exists>a street.
         address \<lparr>address = Some (matched_address '' 123 Main St '' ''Springfield'' ''IL'' ''62704'' ''1234''),
           additionalInfo = Some \<lparr>DPVConfirmation = JString ''D''\<rparr>, errors = None\<rparr> = Some a
         \<and> address.streetAddress a = JString street
         \<and> '' 123 Main St , Springfield, IL 62704-1234''
             = street @ '', '' @ template (address.city a) @ '', '' @ template (address.state a)
               @ '' '' @ template (ZIPCode a) @ ''-'' @ template (ZIPPlus4 a))"
proof -
  let ?a = "matched_address '' 123 Main St '' ''Springfield'' ''IL'' ''62704'' ''1234''"
  let ?p = "\<lparr>params.streetAddress = ''123 MAIN ST'', city = ''Springfield'', state = ''IL'',
      zipCode = None\<rparr>"
  let ?d = "\<lparr>address = Some ?a,
      additionalInfo = Some \<lparr>DPVConfirmation = JString ''D''\<rparr>, errors = None\<rparr>"
  have matched: "address ?d = Some ?a"
    by simp
  have same: "toUpperCase (trim ''123 MAIN ST'') = toUpperCase (trim '' 123 Main St '')"
    by code_simp
  have reply: "validateAddress ?p ?d
      = Inr (render (AccuracySuggestion '' 123 Main St , Springfield, IL 62704-1234''))"
    using same validateAddress_matched [OF matched matched_address_street, of ?p]
    by (simp add: DPVConfirmation_of_def suggestedAddress_matched formattedAddress_def)
  then have "validateAddress ?p ?d
        = Inr (render (CorrectedSuggestion '' 123 Main St , Springfield, IL 62704-1234''))
      \<or> validateAddress ?p ?d
        = Inr (render (AccuracySuggestion '' 123 Main St , Springfield, IL 62704-1234''))"
    by (rule disjI2)
  from reply suggestion_verbatim [OF this] show ?thesis
    by (rule conjI)
qed

end
